theory Spec2Isabelle
  imports Main
begin

chapter \<open>The model\<close>

section \<open>Python strings\<close>

text \<open>
  A Python \<open>str\<close> is a sequence of code points. A \<^typ>\<open>char\<close> stands for the code point
  \<open>of_char c\<close>, so the strings of this development are the Python strings over the code
  points 0 to 255. The operations below are the Python built-ins the sources call, on
  that range.
\<close>

definition ord :: "char \<Rightarrow> nat" where
  "ord c = of_char c"

definition dquote :: char where
  "dquote = CHR 0x22"

definition backslash :: char where
  "backslash = CHR 0x5C"

definition newline :: char where
  "newline = CHR 0x0A"

text \<open>\<open>sep.join(xs)\<close>.\<close>

fun join :: "string \<Rightarrow> string list \<Rightarrow> string" where
  "join sep [] = []"
| "join sep [x] = x"
| "join sep (x # y # ys) = x @ sep @ join sep (y # ys)"

text \<open>\<open>s.split(c)\<close> for a separator of one character: never an empty list.\<close>

fun split :: "char \<Rightarrow> string \<Rightarrow> string list" where
  "split c [] = [[]]"
| "split c (x # xs) =
     (if x = c then [] # split c xs
      else (case split c xs of p # ps \<Rightarrow> (x # p) # ps | [] \<Rightarrow> [[x]]))"

text \<open>\<open>s.split(c, 1)\<close>: split at the first occurrence only.\<close>

fun split_maxsplit1 :: "char \<Rightarrow> string \<Rightarrow> string list" where
  "split_maxsplit1 c [] = [[]]"
| "split_maxsplit1 c (x # xs) =
     (if x = c then [[], xs]
      else (case split_maxsplit1 c xs of p # ps \<Rightarrow> (x # p) # ps | [] \<Rightarrow> [[x]]))"

text \<open>
  \<open>str.isspace\<close> on one character: the ASCII white space 9 to 13, 28 to 32, and the
  code points 0x85 and 0xA0.
\<close>

definition isspace :: "char \<Rightarrow> bool" where
  "isspace c = (let n = ord c in
     (9 \<le> n \<and> n \<le> 13) \<or> (28 \<le> n \<and> n \<le> 32) \<or> n = 133 \<or> n = 160)"

text \<open>\<open>s.strip()\<close>.\<close>

definition strip :: "string \<Rightarrow> string" where
  "strip s = rev (dropWhile isspace (rev (dropWhile isspace s)))"

text \<open>
  \<open>s.lower()\<close>, character by character: A to Z and the Latin-1 capitals 0xC0 to 0xDE
  (but the multiplication sign 0xD7) move up by 32; every other code point of the range
  is its own lower case.
\<close>

definition lower_char :: "char \<Rightarrow> char" where
  "lower_char c = (let n = ord c in
     if (65 \<le> n \<and> n \<le> 90) \<or> (192 \<le> n \<and> n \<le> 222 \<and> n \<noteq> 215)
     then char_of (n + 32) else c)"

definition lower :: "string \<Rightarrow> string" where
  "lower s = map lower_char s"

text \<open>\<open>s.replace(a, b)\<close> for \<open>a\<close> and \<open>b\<close> of one character each.\<close>

definition replace_char :: "char \<Rightarrow> char \<Rightarrow> string \<Rightarrow> string" where
  "replace_char a b s = map (\<lambda>c. if c = a then b else c) s"

text \<open>\<open>s.startswith(p)\<close>.\<close>

definition startswith :: "string \<Rightarrow> string \<Rightarrow> bool" where
  "startswith s p = (take (length p) s = p)"

text \<open>\<open>a in s\<close> for strings: \<open>a\<close> is a substring of \<open>s\<close>.\<close>

fun is_substring :: "string \<Rightarrow> string \<Rightarrow> bool" where
  "is_substring a [] = (a = [])"
| "is_substring a (x # xs) = (take (length a) (x # xs) = a \<or> is_substring a xs)"

section \<open>Errors\<close>

text \<open>The exceptions the modelled code raises; a result is \<open>Inl\<close> of one, or \<open>Inr\<close> of a value.\<close>

datatype py_error =
    ValueError
  | AssertionError
  | NotImplementedError
  | UnboundLocalError
  | TypeError
  | KeyError
  | AttributeError
  | RecursionError

section \<open>Annotations and their styling (exporter.py)\<close>

text \<open>
  Modelled from the spec: \<open>ContentWithAnnotation\<close> is declared in notion2hugo/base.py,
  which is not among the sources. The spec's data model gives its fields: the text, the
  style flags, the optional link and the three markers. \<open>is_toggleable\<close> is the one
  further keyword provider.py passes to the constructor.
\<close>

record ContentWithAnnotation =
  plain_text :: string
  href :: "string option"
  is_equation :: bool
  is_toggleable :: bool
  bold :: bool
  italic :: bool
  strikethrough :: bool
  underline :: bool
  code :: bool
  color :: string
  highlight :: bool
  is_caption :: bool
  is_feature_image :: bool

text \<open>
  The body of the loop of \<open>MarkdownStyler._style_content_with_annotation\<close> after its guard:
  the chain of \<open>if\<close> statements, each reassigning \<open>t\<close>. \<open>if text.color: pass\<close> changes
  nothing; \<open>if text.href\<close> holds for a link that is present and not empty.
\<close>

definition style_text :: "ContentWithAnnotation \<Rightarrow> string" where
  "style_text text =
    (let t = plain_text text;
         t = (if bold text then ''**'' @ t @ ''**'' else t);
         t = (if italic text then ''_'' @ t @ ''_'' else t);
         t = (if strikethrough text then ''~~'' @ t @ ''~~'' else t);
         t = (if underline text then ''<ins>'' @ t @ ''</ins>'' else t);
         t = (if code text then ''`'' @ t @ ''`'' else t);
         t = (if color text \<noteq> [] then t else t);
         t = (case href text of
                Some h \<Rightarrow> if h \<noteq> [] then ''['' @ t @ '']('' @ h @ '')'' else t
              | None \<Rightarrow> t);
         t = (if is_equation text then ''$ '' @ t @ '' $'' else t);
         t = (if highlight text then ''<mark>'' @ t @ ''</mark>'' else t)
     in t)"

text \<open>
  The loop itself, with the list \<open>ts\<close> it appends to: an annotation with an empty
  \<open>plain_text\<close> makes the whole function return the empty string at once.
\<close>

fun style_loop :: "ContentWithAnnotation list \<Rightarrow> string list \<Rightarrow> string" where
  "style_loop [] ts = join [] ts"
| "style_loop (text # texts) ts =
     (if plain_text text = [] then []
      else style_loop texts (ts @ [style_text text]))"

definition style_content_with_annotation :: "ContentWithAnnotation list \<Rightarrow> string" where
  "style_content_with_annotation texts = style_loop texts []"

text \<open>
  The nesting order in the spec's words: bold innermost, then italic, strikethrough,
  underline, code, link, equation, and highlight outermost.
\<close>

definition wrap :: "bool \<Rightarrow> string \<Rightarrow> string \<Rightarrow> string \<Rightarrow> string" where
  "wrap on l r t = (if on then l @ t @ r else t)"

definition wrap_link :: "string option \<Rightarrow> string \<Rightarrow> string" where
  "wrap_link h t =
     (case h of None \<Rightarrow> t | Some u \<Rightarrow> wrap (u \<noteq> []) ''['' ('']('' @ u @ '')'') t)"

definition nested_markup :: "ContentWithAnnotation \<Rightarrow> string" where
  "nested_markup a =
     wrap (highlight a) ''<mark>'' ''</mark>''
      (wrap (is_equation a) ''$ '' '' $''
        (wrap_link (href a)
          (wrap (code a) ''`'' ''`''
            (wrap (underline a) ''<ins>'' ''</ins>''
              (wrap (strikethrough a) ''~~'' ''~~''
                (wrap (italic a) ''_'' ''_''
                  (wrap (bold a) ''**'' ''**'' (plain_text a))))))))"

text \<open>An annotation with the given text and every flag off.\<close>

definition plain :: "string \<Rightarrow> ContentWithAnnotation" where
  "plain s = \<lparr>plain_text = s, href = None, is_equation = False, is_toggleable = False,
     bold = False, italic = False, strikethrough = False, underline = False, code = False,
     color = ''default'', highlight = False, is_caption = False, is_feature_image = False\<rparr>"

section \<open>Path names (exporter.py, provider.py)\<close>

text \<open>
  The regular expression of \<open>sanitize_path\<close> is one negated character class,
  \<open>[^a-zA-Z0-9-_\.]\<close>: ranges and single characters. A character matches the pattern
  when no item of the class holds it.
\<close>

datatype class_item = Range char char | Lit char

fun in_item :: "char \<Rightarrow> class_item \<Rightarrow> bool" where
  "in_item c (Range lo hi) = (ord lo \<le> ord c \<and> ord c \<le> ord hi)"
| "in_item c (Lit x) = (c = x)"

definition negated_class :: "class_item list \<Rightarrow> char \<Rightarrow> bool" where
  "negated_class items c = (\<not> list_ex (in_item c) items)"

text \<open>\<open>pattern.sub("", name)\<close> for a pattern of one character: every match is removed.\<close>

definition re_sub_empty :: "(char \<Rightarrow> bool) \<Rightarrow> string \<Rightarrow> string" where
  "re_sub_empty pattern name = filter (\<lambda>c. \<not> pattern c) name"

text \<open>The module-level \<open>sanitize_path\<close> of exporter.py.\<close>

definition sanitize_path :: "string \<Rightarrow> string" where
  "sanitize_path name =
     (let pattern = negated_class
            [Range CHR ''a'' CHR ''z'', Range CHR ''A'' CHR ''Z'', Range CHR ''0'' CHR ''9'',
             Lit CHR ''-'', Lit CHR ''_'', Lit CHR ''.''];
          name = lower (replace_char CHR '' '' CHR ''_'' name)
      in re_sub_empty pattern name)"

text \<open>\<open>NotionProvider.sanitize_path\<close> of provider.py: the same three lines.\<close>

definition NotionProvider_sanitize_path :: "string \<Rightarrow> string" where
  "NotionProvider_sanitize_path name =
     (let pattern = negated_class
            [Range CHR ''a'' CHR ''z'', Range CHR ''A'' CHR ''Z'', Range CHR ''0'' CHR ''9'',
             Lit CHR ''-'', Lit CHR ''_'', Lit CHR ''.''];
          name = lower (replace_char CHR '' '' CHR ''_'' name)
      in re_sub_empty pattern name)"

text \<open>
  The characters the spec lets through, \<open>[a-zA-Z0-9-_.]\<close>, written out; and those of them
  that are not capital letters.
\<close>

definition allowed_chars :: "char set" where
  "allowed_chars = set ''abcdefghijklmnopqrstuvwxyz'' \<union> set ''ABCDEFGHIJKLMNOPQRSTUVWXYZ''
     \<union> set ''0123456789'' \<union> {CHR ''-'', CHR ''_'', CHR ''.''}"

definition lower_allowed_chars :: "char set" where
  "lower_allowed_chars = set ''abcdefghijklmnopqrstuvwxyz''
     \<union> set ''0123456789'' \<union> {CHR ''-'', CHR ''_'', CHR ''.''}"


section \<open>Image captions (exporter.py)\<close>

text \<open>
  \<open>MarkdownStyler.parse_caption\<close>: a caption with a backslash is split at the first one and
  both parts are stripped; a caption without one is returned as it is, with an empty
  alternative text.
\<close>

definition parse_caption :: "string \<Rightarrow> string \<times> string" where
  "parse_caption input_string =
     (if backslash \<in> set input_string then
        (let parts = split_maxsplit1 backslash input_string;
             caption = strip (parts ! 0);
             alt = strip (parts ! 1)
         in (caption, alt))
      else (input_string, []))"

text \<open>
  The caption split in the spec's words: both parts stripped; without a backslash, the
  whole input trimmed and an empty alternative text.
\<close>

definition spec_parse_caption :: "string \<Rightarrow> string \<times> string" where
  "spec_parse_caption s =
     (if backslash \<in> set s
      then (strip (takeWhile (\<lambda>c. c \<noteq> backslash) s),
            strip (tl (dropWhile (\<lambda>c. c \<noteq> backslash) s)))
      else (strip s, []))"


section \<open>Blocks (Blob)\<close>

text \<open>
  Modelled from the spec: the enumeration \<open>BlobType\<close> is declared in notion2hugo/base.py,
  which is not among the sources. The spec's data model gives the variants; \<open>OTHER v\<close>
  stands for any further member the enumeration may declare, \<open>v\<close> its value (the name of
  a Notion block type).
\<close>

datatype BlobType =
    PARAGRAPH | HEADING_1 | HEADING_2 | HEADING_3 | DIVIDER | EQUATION | CODE
  | BULLETED_LIST_ITEM | NUMBERED_LIST_ITEM | TO_DO | QUOTE | TABLE | TABLE_ROW
  | IMAGE | VIDEO | COLUMN_LIST | COLUMN | CALLOUT | OTHER string

text \<open>\<open>blob.type.value\<close>: the string of a member.\<close>

fun BlobType_value :: "BlobType \<Rightarrow> string" where
  "BlobType_value PARAGRAPH = ''paragraph''"
| "BlobType_value HEADING_1 = ''heading_1''"
| "BlobType_value HEADING_2 = ''heading_2''"
| "BlobType_value HEADING_3 = ''heading_3''"
| "BlobType_value DIVIDER = ''divider''"
| "BlobType_value EQUATION = ''equation''"
| "BlobType_value CODE = ''code''"
| "BlobType_value BULLETED_LIST_ITEM = ''bulleted_list_item''"
| "BlobType_value NUMBERED_LIST_ITEM = ''numbered_list_item''"
| "BlobType_value TO_DO = ''to_do''"
| "BlobType_value QUOTE = ''quote''"
| "BlobType_value TABLE = ''table''"
| "BlobType_value TABLE_ROW = ''table_row''"
| "BlobType_value IMAGE = ''image''"
| "BlobType_value VIDEO = ''video''"
| "BlobType_value COLUMN_LIST = ''column_list''"
| "BlobType_value COLUMN = ''column''"
| "BlobType_value CALLOUT = ''callout''"
| "BlobType_value (OTHER v) = v"

text \<open>
  Modelled from the spec: the dataclass \<open>Blob\<close> is declared in notion2hugo/base.py too. Its
  ten fields are those of the spec's data model and of the constructor call in
  \<open>MarkdownExporter.async_process\<close>. The fields \<open>id\<close> and \<open>file\<close> are \<open>blob_id\<close> and
  \<open>blob_file\<close> here.
\<close>

datatype Blob = Blob
  (blob_id: string)
  (rich_text: "ContentWithAnnotation list")
  (type: BlobType)
  (children: "Blob list option")
  (blob_file: "string option")
  (language: "string option")
  (table_width: "int option")
  (table_cells: "ContentWithAnnotation list list option")
  (is_checked: "bool option")
  (url: "string option")

text \<open>
  The children a loop \<open>if blob.children: for child_blob in blob.children\<close> visits: none
  when the field is \<open>None\<close> or the empty list.
\<close>

definition children_list :: "Blob \<Rightarrow> Blob list" where
  "children_list blob = (case children blob of None \<Rightarrow> [] | Some cs \<Rightarrow> cs)"

lemma size_children_list:
  assumes "c \<in> set (children_list b)"
  shows "size c < size b"
proof (cases b)
  case (Blob i rt ty ch f l tw tc ic u)
  with assms obtain cs where cs: "ch = Some cs" "c \<in> set cs"
    by (auto simp: children_list_def split: option.splits)
  from cs(2) have "size c \<le> size_list size cs"
    by (rule size_list_estimation') simp
  with Blob cs(1) show ?thesis by simp
qed

section \<open>The renderer (MarkdownStyler, exporter.py)\<close>

type_synonym rendered = "py_error + string"

text \<open>A list comprehension or loop over calls that may raise: the first exception wins.\<close>

fun collect :: "(py_error + 'a) list \<Rightarrow> py_error + 'a list" where
  "collect [] = Inr []"
| "collect (Inl e # rs) = Inl e"
| "collect (Inr v # rs) = (case collect rs of Inl e \<Rightarrow> Inl e | Inr vs \<Rightarrow> Inr (v # vs))"

text \<open>\<open>xs.insert(i, x)\<close> for an index \<open>i\<close> that is not negative.\<close>

definition list_insert :: "nat \<Rightarrow> 'a \<Rightarrow> 'a list \<Rightarrow> 'a list" where
  "list_insert i x xs = take i xs @ x # drop i xs"

text \<open>A text between double quotes, as the shortcodes have their arguments.\<close>

definition quoted :: "string \<Rightarrow> string" where
  "quoted s = dquote # s @ [dquote]"

definition INC_INDENT :: int where
  "INC_INDENT = 4"

text \<open>
  The methods of the class that render a block, and what \<open>getattr(cls, name)\<close> finds for a
  name that the body of the class defines: a rendering method, the class variable
  \<open>INC_INDENT\<close>, one of the helper methods (which do not take a block and an indentation),
  or \<open>process\<close> itself.
\<close>

datatype renderer =
    R_divider | R_heading_1 | R_heading_2 | R_heading_3 | R_equation | R_code
  | R_bulleted_list_item | R_numbered_list_item | R_to_do | R_quote | R_table
  | R_table_row | R_image | R_paragraph | R_video | R_column_list | R_column | R_callout

datatype attribute = Renderer renderer | ClassVariable | Helper | Process

definition getattr_MarkdownStyler :: "string \<Rightarrow> attribute option" where
  "getattr_MarkdownStyler = map_of
     [(''INC_INDENT'', ClassVariable),
      (''_style_content_with_annotation'', Helper),
      (''divider'', Renderer R_divider),
      (''heading_1'', Renderer R_heading_1),
      (''heading_2'', Renderer R_heading_2),
      (''heading_3'', Renderer R_heading_3),
      (''equation'', Renderer R_equation),
      (''code'', Renderer R_code),
      (''_list_item'', Helper),
      (''bulleted_list_item'', Renderer R_bulleted_list_item),
      (''numbered_list_item'', Renderer R_numbered_list_item),
      (''to_do'', Renderer R_to_do),
      (''quote'', Renderer R_quote),
      (''table'', Renderer R_table),
      (''table_row'', Renderer R_table_row),
      (''parse_caption'', Helper),
      (''image'', Renderer R_image),
      (''paragraph'', Renderer R_paragraph),
      (''process'', Process),
      (''video'', Renderer R_video),
      (''column_list'', Renderer R_column_list),
      (''column'', Renderer R_column),
      (''callout'', Renderer R_callout)]"

text \<open>
  \<open>hasattr(cls, name)\<close> holds for the names of the class body and for the names the class
  inherits from \<open>object\<close> and from its metaclass (\<open>__doc__\<close>, \<open>__class__\<close>, \<open>__init__\<close>,
  \<open>mro\<close> and so on). Which names those are is the Python runtime's: the test for them
  is the parameter \<open>inherited\<close>. None of them is a method of a block and an indentation
  that returns a string, so calling one and prefixing the result raises \<open>TypeError\<close>.
  \<open>object_attribute\<close> is the test for the attributes that every class has from \<open>object\<close>.
\<close>

definition hasattr_MarkdownStyler :: "(string \<Rightarrow> bool) \<Rightarrow> string \<Rightarrow> bool" where
  "hasattr_MarkdownStyler inherited name =
     (getattr_MarkdownStyler name \<noteq> None \<or> inherited name)"

definition object_attribute :: "string \<Rightarrow> bool" where
  "object_attribute name = (name \<in> set
     [''__class__'', ''__delattr__'', ''__dict__'', ''__dir__'', ''__doc__'', ''__eq__'',
      ''__format__'', ''__ge__'', ''__getattribute__'', ''__gt__'', ''__hash__'', ''__init__'',
      ''__init_subclass__'', ''__le__'', ''__lt__'', ''__module__'', ''__ne__'', ''__new__'',
      ''__reduce__'', ''__reduce_ex__'', ''__repr__'', ''__setattr__'', ''__sizeof__'',
      ''__str__'', ''__subclasshook__'', ''__weakref__''])"

text \<open>
  The rendering methods that call no other: \<open>divider\<close>, \<open>quote\<close>, \<open>table_row\<close>, \<open>image\<close>,
  \<open>video\<close> and \<open>callout\<close>. \<open>image\<close> asks the file system whether the file exists:
  \<open>exists\<close> is \<open>os.path.exists\<close>.
\<close>

definition divider :: "Blob \<Rightarrow> int \<Rightarrow> rendered" where
  "divider blob indent = Inr ''\<newline>---\<newline>''"

definition quote :: "Blob \<Rightarrow> int \<Rightarrow> rendered" where
  "quote blob indent =
     (let texts = [''> '' @ style_content_with_annotation (rich_text blob)];
          texts = texts @ map (\<lambda>child_blob.
                    ''> '' @ style_content_with_annotation (rich_text child_blob))
                    (children_list blob)
      in Inr (join ''\<newline>>\<newline>'' texts))"

definition table_row :: "Blob \<Rightarrow> int \<Rightarrow> rendered" where
  "table_row blob indent =
     (case table_cells blob of
        None \<Rightarrow> Inl AssertionError
      | Some cells \<Rightarrow>
          if cells = [] then Inl AssertionError
          else Inr (''| '' @ join '' | '' (map style_content_with_annotation cells) @ '' |''))"

definition image :: "(string \<Rightarrow> bool) \<Rightarrow> Blob \<Rightarrow> int \<Rightarrow> rendered" where
  "image exists blob indent =
     (case blob_file blob of
        None \<Rightarrow> Inl AssertionError
      | Some f \<Rightarrow>
          if f = [] \<or> \<not> exists f then Inl AssertionError
          else
            (let caption = style_content_with_annotation (rich_text blob);
                 path_parts = split CHR ''/'' f;
                 new_path_parts = [''images''] @ drop 2 path_parts;
                 relative_path = join ''/'' new_path_parts;
                 (extract_cap, extract_alt) = parse_caption caption
             in Inr (''{{< img class='' @ quoted ''blog-img-center'' @ '' width='' @ quoted ''800''
                     @ '' src='' @ quoted relative_path @ '' ''
                     @ ''caption='' @ quoted extract_cap @ '' alt='' @ quoted extract_alt
                     @ '' >}}'')))"

definition video :: "Blob \<Rightarrow> int \<Rightarrow> rendered" where
  "video blob indent =
     (let title = style_content_with_annotation (rich_text blob) in
      if title = [] then Inl AssertionError
      else (case url blob of
              None \<Rightarrow> Inl AttributeError
            | Some u \<Rightarrow>
                if \<not> startswith u ''https://youtu.be/'' then Inl AssertionError
                else (let video_id = drop (length ''https://youtu.be/'') u
                      in Inr (''{{< youtube id='' @ quoted video_id @ '' title='' @ quoted title
                              @ '' width=60 >}}''))))"

definition callout :: "Blob \<Rightarrow> int \<Rightarrow> rendered" where
  "callout blob indent =
     (let text = style_content_with_annotation (rich_text blob)
      in Inr (''{{< callout emoji='' @ quoted [] @ '' text='' @ quoted text @ '' >}}''))"

text \<open>
  \<open>process\<close>, the rendering methods it dispatches to (\<open>render r\<close> is the method of the
  name \<open>r\<close>, called as \<open>getattr(cls, name)(blob, indent)\<close>) and \<open>_list_item\<close> call each
  other; \<open>inherited\<close> is the test of the runtime for an inherited attribute, \<open>exists\<close> is
  \<open>os.path.exists\<close>. A format \<open>{blob.language}\<close> of the absent language prints \<open>None\<close>.
\<close>

function process ::
    "(string \<Rightarrow> bool) \<Rightarrow> (string \<Rightarrow> bool) \<Rightarrow> Blob option \<Rightarrow> int \<Rightarrow> rendered"
  and render ::
    "(string \<Rightarrow> bool) \<Rightarrow> (string \<Rightarrow> bool) \<Rightarrow> renderer \<Rightarrow> Blob \<Rightarrow> int \<Rightarrow> rendered"
  and list_item ::
    "(string \<Rightarrow> bool) \<Rightarrow> (string \<Rightarrow> bool) \<Rightarrow> Blob \<Rightarrow> string \<Rightarrow> int \<Rightarrow> rendered"
where
  "process inherited exists None indent = Inr []"
| "process inherited exists (Some blob) indent =
     (if \<not> hasattr_MarkdownStyler inherited (BlobType_value (type blob)) then Inl ValueError
      else
        (case getattr_MarkdownStyler (BlobType_value (type blob)) of
           Some (Renderer r) \<Rightarrow>
             (case render inherited exists r blob indent of
                Inl e \<Rightarrow> Inl e
              | Inr s \<Rightarrow> Inr (''\<newline>'' @ s))
         | Some Process \<Rightarrow> Inl RecursionError
         | Some ClassVariable \<Rightarrow> Inl TypeError
         | Some Helper \<Rightarrow> Inl TypeError
         | None \<Rightarrow> Inl TypeError))"
| "render inherited exists R_divider blob indent = divider blob indent"
| "render inherited exists R_heading_1 blob indent =
     (case render inherited exists R_paragraph blob indent of
        Inl e \<Rightarrow> Inl e | Inr p \<Rightarrow> Inr (''# '' @ p))"
| "render inherited exists R_heading_2 blob indent =
     (case render inherited exists R_paragraph blob indent of
        Inl e \<Rightarrow> Inl e | Inr p \<Rightarrow> Inr (''## '' @ p))"
| "render inherited exists R_heading_3 blob indent =
     (case render inherited exists R_paragraph blob indent of
        Inl e \<Rightarrow> Inl e | Inr p \<Rightarrow> Inr (''### '' @ p))"
| "render inherited exists R_equation blob indent =
     (case render inherited exists R_paragraph blob indent of
        Inl e \<Rightarrow> Inl e | Inr p \<Rightarrow> Inr (''$$\<newline>'' @ p @ ''\<newline>$$''))"
| "render inherited exists R_code blob indent =
     (case render inherited exists R_paragraph blob indent of
        Inl e \<Rightarrow> Inl e
      | Inr p \<Rightarrow> Inr (join ''\<newline>''
          [''```'' @ (case language blob of None \<Rightarrow> ''None'' | Some l \<Rightarrow> l), p, ''```'']))"
| "render inherited exists R_bulleted_list_item blob indent = list_item inherited exists blob ''-'' indent"
| "render inherited exists R_numbered_list_item blob indent = list_item inherited exists blob ''1.'' indent"
| "render inherited exists R_to_do blob indent =
     list_item inherited exists blob
       (''- ['' @ (if is_checked blob = Some True then ''X'' else '' '') @ '']'') indent"
| "render inherited exists R_quote blob indent = quote blob indent"
| "render inherited exists R_table blob indent =
     (case table_width blob of
        None \<Rightarrow> Inl AssertionError
      | Some w \<Rightarrow>
          if w = 0 then Inl AssertionError
          else
            (case collect (map (\<lambda>child_blob. process inherited exists (Some child_blob) indent)
                            (children_list blob)) of
               Inl e \<Rightarrow> Inl e
             | Inr rows \<Rightarrow>
                 (let rows = (if length rows \<ge> 1
                              then list_insert 1
                                (''\<newline>|'' @ concat (replicate (nat w) ''---|'')) rows
                              else rows);
                      table_content = join [] rows
                  in Inr (''\<newline>'' @ ''{{< bootstrap-table table_class=''
                          @ quoted ''table table-striped table-bordered table-nonfluid w-auto''
                          @ '' >}}'' @ table_content @ ''\<newline>''
                          @ ''{{< /bootstrap-table >}}''))))"
| "render inherited exists R_table_row blob indent = table_row blob indent"
| "render inherited exists R_image blob indent = image exists blob indent"
| "render inherited exists R_paragraph blob indent =
     (case collect (map (\<lambda>child_blob. process inherited exists (Some child_blob) (indent + INC_INDENT))
                     (children_list blob)) of
        Inl e \<Rightarrow> Inl e
      | Inr rs \<Rightarrow>
          Inr (join ''\<newline>'' ([style_content_with_annotation (rich_text blob)] @ rs)))"
| "render inherited exists R_video blob indent = video blob indent"
| "render inherited exists R_column_list blob indent =
     (case collect (map (\<lambda>child_blob. process inherited exists (Some child_blob) (indent + INC_INDENT))
                     (children_list blob)) of
        Inl e \<Rightarrow> Inl e
      | Inr rs \<Rightarrow>
          Inr (join ''\<newline>'' ([style_content_with_annotation (rich_text blob)] @ rs)))"
| "render inherited exists R_column blob indent = list_item inherited exists blob ''-column'' indent"
| "render inherited exists R_callout blob indent = callout blob indent"
| "list_item inherited exists blob list_ch indent =
     (let whitespace = replicate (nat indent) CHR '' '' in
      case collect (map (\<lambda>child_blob. process inherited exists (Some child_blob) (indent + INC_INDENT))
                     (children_list blob)) of
        Inl e \<Rightarrow> Inl e
      | Inr rs \<Rightarrow>
          Inr (join ''\<newline>''
            ([whitespace @ list_ch @ '' '' @ style_content_with_annotation (rich_text blob)]
             @ rs)))"
  by pat_completeness auto

termination
  by (relation "measure (\<lambda>x. case x of
        Inl (_, _, bo, _) \<Rightarrow> (case bo of None \<Rightarrow> 0 | Some b \<Rightarrow> 3 * size b + 2)
      | Inr (Inl (_, _, r, b, _)) \<Rightarrow>
          3 * size b + (if r \<in> {R_heading_1, R_heading_2, R_heading_3, R_equation, R_code,
             R_bulleted_list_item, R_numbered_list_item, R_to_do, R_column} then 1 else 0)
      | Inr (Inr (_, _, b, _, _)) \<Rightarrow> 3 * size b)")
    (auto dest: size_children_list)


text \<open>
  The words of the spec about tables and images. A separator row has \<open>W\<close> cells of
  \<open>---\<close>; the pipe-delimited lines of a text are its lines with a \<open>|\<close>, counted here by
  the number of \<open>|\<close> in each; and the spec's image path replaces the first segment only.
\<close>

definition separator_row :: "nat \<Rightarrow> string" where
  "separator_row W = ''\<newline>|'' @ concat (replicate W ''---|'')"

definition pipe_counts :: "string \<Rightarrow> nat list" where
  "pipe_counts out =
     map (\<lambda>l. count_list l CHR ''|'') (filter (\<lambda>l. CHR ''|'' \<in> set l) (split newline out))"



text \<open>The two tags that \<open>table\<close> puts around the rows.\<close>

definition table_open :: string where
  "table_open = ''\<newline>'' @ ''{{< bootstrap-table table_class=''
     @ quoted ''table table-striped table-bordered table-nonfluid w-auto'' @ '' >}}''"

definition table_close :: string where
  "table_close = ''\<newline>'' @ ''{{< /bootstrap-table >}}''"

text \<open>A table row of the given cell texts, and a table of the given width and rows.\<close>

definition row_of :: "string list \<Rightarrow> Blob" where
  "row_of cells =
     Blob ''row'' [] TABLE_ROW None None None None (Some (map (\<lambda>c. [plain c]) cells)) None None"

definition table_of :: "int \<Rightarrow> Blob list \<Rightarrow> Blob" where
  "table_of w rows = Blob ''table'' [] TABLE (Some rows) None None (Some w) None None None"


section \<open>Raw property values (provider.py)\<close>

text \<open>
  The raw page properties are decoded JSON: \<open>None\<close>, booleans, integers, floats, strings,
  lists and dicts with string keys. A float is kept as a mantissa and a binary exponent
  (only whether it is zero matters here); a dict is the list of its items in insertion
  order, with distinct keys.
\<close>

datatype pyval =
    PNone
  | PBool bool
  | PInt int
  | PFloat int int
  | PStr string
  | PList "pyval list"
  | PDict "(string \<times> pyval) list"

type_synonym pydict = "(string \<times> pyval) list"

text \<open>The truth value of a Python value, as \<open>if x\<close> and \<open>not x\<close> test it.\<close>

fun truthy :: "pyval \<Rightarrow> bool" where
  "truthy PNone = False"
| "truthy (PBool b) = b"
| "truthy (PInt i) = (i \<noteq> 0)"
| "truthy (PFloat m e) = (m \<noteq> 0)"
| "truthy (PStr s) = (s \<noteq> [])"
| "truthy (PList xs) = (xs \<noteq> [])"
| "truthy (PDict kvs) = (kvs \<noteq> [])"

text \<open>\<open>d[k] = v\<close>: an existing key keeps its place, a new key goes last.\<close>

fun dict_set :: "pydict \<Rightarrow> string \<Rightarrow> pyval \<Rightarrow> pydict" where
  "dict_set [] k v = [(k, v)]"
| "dict_set ((k', v') # kvs) k v =
     (if k' = k then (k, v) # kvs else (k', v') # dict_set kvs k v)"

text \<open>The keys of a dict.\<close>

definition dict_keys :: "pydict \<Rightarrow> string set" where
  "dict_keys d = fst ` set d"

text \<open>\<open>x[k]\<close> for a string \<open>k\<close>: a missing key of a dict, and any value that is not a dict.\<close>

fun subscript :: "pyval \<Rightarrow> string \<Rightarrow> py_error + pyval" where
  "subscript (PDict d) k = (case map_of d k of None \<Rightarrow> Inl KeyError | Some v \<Rightarrow> Inr v)"
| "subscript _ k = Inl TypeError"

text \<open>\<open>x.get(k, default)\<close>: only a dict has the method.\<close>

fun py_get :: "pyval \<Rightarrow> string \<Rightarrow> pyval \<Rightarrow> py_error + pyval" where
  "py_get (PDict d) k dflt = (case map_of d k of None \<Rightarrow> Inr dflt | Some v \<Rightarrow> Inr v)"
| "py_get _ k dflt = Inl AttributeError"

text \<open>\<open>c.get(k)\<close> on the items of a dict.\<close>

definition get_or_None :: "pydict \<Rightarrow> string \<Rightarrow> pyval" where
  "get_or_None d k = (case map_of d k of None \<Rightarrow> PNone | Some v \<Rightarrow> v)"

text \<open>\<open>c[key]\<close> for a key that is itself a value: a list or a dict is not hashable.\<close>

fun subscript_value :: "pydict \<Rightarrow> pyval \<Rightarrow> py_error + pyval" where
  "subscript_value d (PStr s) = (case map_of d s of None \<Rightarrow> Inl KeyError | Some v \<Rightarrow> Inr v)"
| "subscript_value d (PList xs) = Inl TypeError"
| "subscript_value d (PDict kvs) = Inl TypeError"
| "subscript_value d _ = Inl KeyError"

text \<open>\<open>for c in x\<close>: the elements of a list, the keys of a dict, the characters of a string.\<close>

fun iterate :: "pyval \<Rightarrow> py_error + pyval list" where
  "iterate (PList xs) = Inr xs"
| "iterate (PDict kvs) = Inr (map (\<lambda>kv. PStr (fst kv)) kvs)"
| "iterate (PStr s) = Inr (map (\<lambda>c. PStr [c]) s)"
| "iterate _ = Inl TypeError"

definition squote :: char where
  "squote = CHR 0x27"

text \<open>
  How a format \<open>{x}\<close> prints a value is the parameter \<open>fmt\<close> of the functions below (it is
  \<open>str(x)\<close>, a built-in, and a string prints as itself). \<open>format_scalar\<close> is that function
  on strings, integers, booleans and \<open>None\<close>.
\<close>

fun digits :: "nat \<Rightarrow> string" where
  "digits n = (if n < 10 then [char_of (48 + n)] else digits (n div 10) @ [char_of (48 + n mod 10)])"

declare digits.simps [simp del]

fun format_scalar :: "pyval \<Rightarrow> string" where
  "format_scalar (PStr s) = s"
| "format_scalar (PInt i) = (if i < 0 then ''-'' @ digits (nat (- i)) else digits (nat i))"
| "format_scalar (PBool b) = (if b then ''True'' else ''False'')"
| "format_scalar PNone = ''None''"
| "format_scalar _ = []"

section \<open>Property extraction (NotionParser.parse_properties, provider.py)\<close>

text \<open>One element of the comprehension of the title branch: \<open>"'" + c["plain_text"] + "'"\<close>.\<close>

definition title_value :: "pyval \<Rightarrow> py_error + string" where
  "title_value c =
     (case subscript c ''plain_text'' of
        Inl e \<Rightarrow> Inl e
      | Inr (PStr s) \<Rightarrow> Inr ([squote] @ s @ [squote])
      | Inr _ \<Rightarrow> Inl TypeError)"

text \<open>One element of the comprehension of the list branch: \<open>t.get("name")\<close>.\<close>

definition name_of :: "pyval \<Rightarrow> py_error + pyval" where
  "name_of t = py_get t ''name'' PNone"

text \<open>
  The chain of the dict branch. It has no final \<open>else\<close>: when none of the four tests holds,
  \<open>value\<close> keeps what an earlier property left in it, or stays unbound. \<open>value\<close> is \<open>None\<close>
  here while it is unbound.
\<close>

definition resolve_dict :: "(pyval \<Rightarrow> string) \<Rightarrow> pydict \<Rightarrow> pyval option \<Rightarrow> py_error + pyval option" where
  "resolve_dict fmt c value =
     (if truthy (get_or_None c ''name'') then
        (case subscript (PDict c) ''name'' of Inl e \<Rightarrow> Inl e | Inr x \<Rightarrow> Inr (Some x))
      else if truthy (get_or_None c ''type'') then
        (case subscript (PDict c) ''type'' of
           Inl e \<Rightarrow> Inl e
         | Inr ty \<Rightarrow> (case subscript_value c ty of Inl e \<Rightarrow> Inl e | Inr x \<Rightarrow> Inr (Some x)))
      else if truthy (get_or_None c ''prefix'') \<and> truthy (get_or_None c ''number'') then
        (case subscript (PDict c) ''prefix'' of
           Inl e \<Rightarrow> Inl e
         | Inr p \<Rightarrow>
             (case subscript (PDict c) ''number'' of
                Inl e \<Rightarrow> Inl e
              | Inr n \<Rightarrow> Inr (Some (PStr (fmt p @ ''_'' @ fmt n)))))
      else if truthy (get_or_None c ''start'') then
        (case subscript (PDict c) ''start'' of Inl e \<Rightarrow> Inl e | Inr x \<Rightarrow> Inr (Some x))
      else Inr value)"

text \<open>
  The title branch: the value stored under \<open>Title\<close>, the one quoted text when there is
  exactly one, the list of them otherwise.
\<close>

definition title_entry :: "pyval \<Rightarrow> py_error + pyval" where
  "title_entry v =
     (case subscript v ''title'' of
        Inl e \<Rightarrow> Inl e
      | Inr title \<Rightarrow>
          (case iterate title of
             Inl e \<Rightarrow> Inl e
           | Inr cs \<Rightarrow>
               (case collect (map title_value cs) of
                  Inl e \<Rightarrow> Inl e
                | Inr values \<Rightarrow>
                    Inr (if length values = 1 then PStr (values ! 0)
                         else PList (map PStr values)))))"

text \<open>\<open>isinstance(c, (str, int, bool))\<close>.\<close>

fun is_str_int_bool :: "pyval \<Rightarrow> bool" where
  "is_str_int_bool (PStr s) = True"
| "is_str_int_bool (PInt i) = True"
| "is_str_int_bool (PBool b) = True"
| "is_str_int_bool _ = False"

text \<open>
  The chain \<open>if not c or isinstance(c, (str, int, bool)) ... elif ... else: raise\<close> on the
  value \<open>c\<close> of a property, with the state it changes: the dict \<open>prop\<close> and the local
  variable \<open>value\<close>. The dict branch ends in \<open>prop[k] = value\<close>, which raises when
  \<open>value\<close> is unbound.
\<close>

definition store_entry ::
  "(pyval \<Rightarrow> string) \<Rightarrow> string \<Rightarrow> pyval \<Rightarrow> pydict \<times> pyval option
     \<Rightarrow> py_error + pydict \<times> pyval option" where
  "store_entry fmt k c st =
     (case st of (prop, value) \<Rightarrow>
      if \<not> truthy c \<or> is_str_int_bool c then Inr (dict_set prop k c, value)
      else
        (case c of
           PList ts \<Rightarrow>
             (case collect (map name_of ts) of
                Inl e \<Rightarrow> Inl e
              | Inr names \<Rightarrow>
                  Inr (dict_set prop k (PList (filter (\<lambda>x. x \<noteq> PNone) names)), value))
         | PDict cd \<Rightarrow>
             (case resolve_dict fmt cd value of
                Inl e \<Rightarrow> Inl e
              | Inr None \<Rightarrow> Inl UnboundLocalError
              | Inr (Some x) \<Rightarrow> Inr (dict_set prop k x, Some x))
         | _ \<Rightarrow> Inl NotImplementedError))"

text \<open>
  The body of the loop \<open>for k, v in metadata.items()\<close>. \<open>v["type"] in ("relation")\<close> is a
  test for a substring, since \<open>("relation")\<close> is a string, and raises for a type that is
  not a string.
\<close>

definition property_step ::
  "(pyval \<Rightarrow> string) \<Rightarrow> string \<Rightarrow> pyval \<Rightarrow> pydict \<times> pyval option
     \<Rightarrow> py_error + pydict \<times> pyval option" where
  "property_step fmt k v st =
     (case subscript v ''type'' of
        Inl e \<Rightarrow> Inl e
      | Inr (PStr ty) \<Rightarrow>
          if is_substring ty ''relation'' then Inr st
          else if ty = ''title'' then
            (case title_entry v of
               Inl e \<Rightarrow> Inl e
             | Inr x \<Rightarrow> Inr (dict_set (fst st) ''Title'' x, snd st))
          else
            (case py_get v ty (PDict []) of
               Inl e \<Rightarrow> Inl e
             | Inr c \<Rightarrow> store_entry fmt k c st)
      | Inr _ \<Rightarrow> Inl TypeError)"

fun properties_loop ::
  "(pyval \<Rightarrow> string) \<Rightarrow> pydict \<Rightarrow> pydict \<times> pyval option \<Rightarrow> py_error + pydict \<times> pyval option" where
  "properties_loop fmt [] st = Inr st"
| "properties_loop fmt ((k, v) # items) st =
     (case property_step fmt k v st of
        Inl e \<Rightarrow> Inl e
      | Inr st' \<Rightarrow> properties_loop fmt items st')"

text \<open>The lines after the loop that overwrite \<open>Summary\<close>.\<close>

definition summary_step :: "(pyval \<Rightarrow> string) \<Rightarrow> pydict \<Rightarrow> pydict \<Rightarrow> py_error + pydict" where
  "summary_step fmt metadata prop =
     (case map_of metadata ''Summary'' of
        None \<Rightarrow> Inr prop
      | Some summary \<Rightarrow>
          (case py_get summary ''rich_text'' (PList []) of
             Inl e \<Rightarrow> Inl e
           | Inr (PList (first # rest)) \<Rightarrow>
               (case py_get first ''text'' (PDict []) of
                  Inl e \<Rightarrow> Inl e
                | Inr text \<Rightarrow>
                    (case py_get text ''content'' PNone of
                       Inl e \<Rightarrow> Inl e
                     | Inr content \<Rightarrow>
                         if truthy content
                         then Inr (dict_set prop ''Summary''
                                     (PStr ([squote] @ fmt content @ [squote])))
                         else Inr prop))
           | Inr _ \<Rightarrow> Inr prop))"

definition parse_properties :: "(pyval \<Rightarrow> string) \<Rightarrow> pydict \<Rightarrow> py_error + pydict" where
  "parse_properties fmt metadata =
     (case properties_loop fmt metadata ([], None) of
        Inl e \<Rightarrow> Inl e
      | Inr (prop, value) \<Rightarrow>
          (case summary_step fmt metadata prop of
             Inl e \<Rightarrow> Inl e
           | Inr prop \<Rightarrow> Inr (dict_set prop ''lesedauer'' (PStr ''ReadingTime''))))"

text \<open>
  The key order of \<open>HugoFormatter.async_process\<close> (formatter.py) and the properties it
  keeps: those of the key order that are present, in that order.
\<close>

definition key_order :: "string list" where
  "key_order = [''Title'', ''featureImage'', ''Date'', ''Tags'', ''Summary'', ''Categories'',
     ''Lesedauer'']"

definition sorted_data :: "pydict \<Rightarrow> pydict" where
  "sorted_data properties =
     concat (map (\<lambda>key. case map_of properties key of None \<Rightarrow> [] | Some v \<Rightarrow> [(key, v)])
               key_order)"


chapter \<open>Verification\<close>

section \<open>Styling\<close>

lemma join_empty_sep: "join [] ts = concat ts"
  by (induction "[]::string" ts rule: join.induct) simp_all

lemma style_text_nested: "style_text = nested_markup"
  by (rule ext)
    (simp add: style_text_def nested_markup_def wrap_def wrap_link_def Let_def
      split: option.split)

lemma style_loop_all_nonempty:
  "\<forall>a\<in>set texts. plain_text a \<noteq> [] \<Longrightarrow>
   style_loop texts ts = concat ts @ concat (map style_text texts)"
  by (induction texts arbitrary: ts) (simp_all add: join_empty_sep)

lemma style_loop_some_empty:
  "\<exists>a\<in>set texts. plain_text a = [] \<Longrightarrow> style_loop texts ts = []"
  by (induction texts arbitrary: ts) auto

text \<open>
  C1. When every annotation of a sequence has a non-empty \<open>plain_text\<close>, the styled
  rendering is the concatenation, in order, of the renderings of the annotations, each
  nesting its markup in the fixed order bold, italic, strikethrough, underline (ins),
  code, link, equation, highlight (mark); and the text x, bold and italic, renders as
  \<open>_**x**_\<close>.
\<close>

theorem C1_styling_order:
  "((\<forall>a\<in>set texts. plain_text a \<noteq> []) \<longrightarrow>
      style_content_with_annotation texts = concat (map nested_markup texts)) \<and>
   style_content_with_annotation [(plain ''x'')\<lparr>bold := True, italic := True\<rparr>] = ''_**x**_''"
proof
  show "(\<forall>a\<in>set texts. plain_text a \<noteq> []) \<longrightarrow>
     style_content_with_annotation texts = concat (map nested_markup texts)"
    using style_loop_all_nonempty [of texts "[]"]
    by (simp add: style_content_with_annotation_def style_text_nested)
  show "style_content_with_annotation [(plain ''x'')\<lparr>bold := True, italic := True\<rparr>] = ''_**x**_''"
    by (simp add: style_content_with_annotation_def style_text_def plain_def)
qed

text \<open>
  C1 at a concrete sequence: a bold link, then a highlighted equation in code.
\<close>

theorem C1_styling_order_witness:
  "style_content_with_annotation
     [(plain ''a'')\<lparr>bold := True, href := Some ''u''\<rparr>,
      (plain ''b'')\<lparr>code := True, is_equation := True, highlight := True\<rparr>]
   = ''[**a**](u)<mark>$ `b` $</mark>''"
  using C1_styling_order [of "[(plain ''a'')\<lparr>bold := True, href := Some ''u''\<rparr>,
      (plain ''b'')\<lparr>code := True, is_equation := True, highlight := True\<rparr>]"]
  by (simp add: plain_def nested_markup_def wrap_def wrap_link_def)

text \<open>
  C7. When some annotation of a sequence has an empty \<open>plain_text\<close>, the styled rendering
  of the whole sequence is the empty string, whatever the flags and the other annotations.
\<close>

theorem C7_empty_text_short_circuit:
  "\<exists>a\<in>set texts. plain_text a = [] \<Longrightarrow> style_content_with_annotation texts = []"
  by (simp add: style_content_with_annotation_def style_loop_some_empty)

theorem C7_empty_text_short_circuit_witness:
  "style_content_with_annotation
     [(plain ''kept?'')\<lparr>bold := True\<rparr>, (plain [])\<lparr>italic := True, highlight := True\<rparr>,
      plain ''more''] = []"
  using C7_empty_text_short_circuit [of "[(plain ''kept?'')\<lparr>bold := True\<rparr>,
      (plain [])\<lparr>italic := True, highlight := True\<rparr>, plain ''more'']"]
  by (simp add: plain_def)

section \<open>Path names\<close>

lemma ord_less_256: "ord c < 256"
  by (simp add: ord_def)

lemma char_of_ord: "char_of (ord c) = c"
  by (simp add: ord_def)

lemma ord_char_of: "n < 256 \<Longrightarrow> ord (char_of n) = n"
  by (simp add: ord_def)

lemma char_of_eq: "n < 256 \<Longrightarrow> (char_of n = c) = (ord c = n)"
  by (auto simp: ord_def)

lemma ord_between:
  "(ord lo \<le> ord c \<and> ord c \<le> ord hi) = (c \<in> set (map char_of [ord lo ..< Suc (ord hi)]))"
proof
  assume "ord lo \<le> ord c \<and> ord c \<le> ord hi"
  then have "ord c \<in> set [ord lo ..< Suc (ord hi)]" by auto
  then have "char_of (ord c) \<in> set (map (char_of :: nat \<Rightarrow> char) [ord lo ..< Suc (ord hi)])"
    unfolding set_map by (rule imageI)
  then show "c \<in> set (map char_of [ord lo ..< Suc (ord hi)])"
    by (simp only: char_of_ord)
next
  assume "c \<in> set (map char_of [ord lo ..< Suc (ord hi)])"
  then obtain n where n: "c = char_of n" "ord lo \<le> n" "n \<le> ord hi" by auto
  from n(3) ord_less_256 [of hi] have "n < 256" by simp
  with n show "ord lo \<le> ord c \<and> ord c \<le> ord hi" by (simp add: ord_char_of)
qed

lemma chars_of_codes: "map ord s = ns \<Longrightarrow> map char_of ns = s"
  by (auto simp: char_of_ord comp_def)

lemma range_a_z:
  "map char_of [ord CHR ''a'' ..< Suc (ord CHR ''z'')] = ''abcdefghijklmnopqrstuvwxyz''"
  by (rule chars_of_codes) (simp add: ord_def upt_rec)

lemma range_A_Z:
  "map char_of [ord CHR ''A'' ..< Suc (ord CHR ''Z'')] = ''ABCDEFGHIJKLMNOPQRSTUVWXYZ''"
  by (rule chars_of_codes) (simp add: ord_def upt_rec)

lemma range_0_9: "map char_of [ord CHR ''0'' ..< Suc (ord CHR ''9'')] = ''0123456789''"
  by (rule chars_of_codes) (simp add: ord_def upt_rec)

lemma pattern_iff:
  "negated_class
     [Range CHR ''a'' CHR ''z'', Range CHR ''A'' CHR ''Z'', Range CHR ''0'' CHR ''9'',
      Lit CHR ''-'', Lit CHR ''_'', Lit CHR ''.''] c = (c \<notin> allowed_chars)"
  unfolding negated_class_def allowed_chars_def
  by (simp only: list_ex_Nil_iff list_ex_Cons_iff in_item.simps ord_between
      range_a_z range_A_Z range_0_9) blast

lemma sanitize_path_filter:
  "sanitize_path s = filter (\<lambda>c. c \<in> allowed_chars)
     (map lower_char (map (\<lambda>c. if c = CHR '' '' then CHR ''_'' else c) s))"
  unfolding sanitize_path_def Let_def re_sub_empty_def pattern_iff lower_def replace_char_def
  by simp

lemma provider_sanitize_path: "NotionProvider_sanitize_path s = sanitize_path s"
  by (simp add: NotionProvider_sanitize_path_def sanitize_path_def)

lemma char_eq_ord: "(c = d) = (ord c = ord d)"
  by (simp add: ord_def)

lemma allowed_chars_ord:
  "(c \<in> allowed_chars) =
     ((97 \<le> ord c \<and> ord c \<le> 122) \<or> (65 \<le> ord c \<and> ord c \<le> 90) \<or>
      (48 \<le> ord c \<and> ord c \<le> 57) \<or> ord c = 45 \<or> ord c = 95 \<or> ord c = 46)"
proof -
  have "(c \<in> allowed_chars) =
    ((ord CHR ''a'' \<le> ord c \<and> ord c \<le> ord CHR ''z'') \<or>
     (ord CHR ''A'' \<le> ord c \<and> ord c \<le> ord CHR ''Z'') \<or>
     (ord CHR ''0'' \<le> ord c \<and> ord c \<le> ord CHR ''9'') \<or>
     ord c = ord CHR ''-'' \<or> ord c = ord CHR ''_'' \<or> ord c = ord CHR ''.'')"
    unfolding allowed_chars_def ord_between range_a_z range_A_Z range_0_9
      char_eq_ord [symmetric]
    by blast
  then show ?thesis by (simp add: ord_def)
qed

lemma lower_allowed_chars_ord:
  "(c \<in> lower_allowed_chars) =
     ((97 \<le> ord c \<and> ord c \<le> 122) \<or>
      (48 \<le> ord c \<and> ord c \<le> 57) \<or> ord c = 45 \<or> ord c = 95 \<or> ord c = 46)"
proof -
  have "(c \<in> lower_allowed_chars) =
    ((ord CHR ''a'' \<le> ord c \<and> ord c \<le> ord CHR ''z'') \<or>
     (ord CHR ''0'' \<le> ord c \<and> ord c \<le> ord CHR ''9'') \<or>
     ord c = ord CHR ''-'' \<or> ord c = ord CHR ''_'' \<or> ord c = ord CHR ''.'')"
    unfolding lower_allowed_chars_def ord_between range_a_z range_0_9
      char_eq_ord [symmetric]
    by blast
  then show ?thesis by (simp add: ord_def)
qed

lemma ord_lower_char:
  "ord (lower_char c) =
     (if (65 \<le> ord c \<and> ord c \<le> 90) \<or> (192 \<le> ord c \<and> ord c \<le> 222 \<and> ord c \<noteq> 215)
      then ord c + 32 else ord c)"
  by (auto simp: lower_char_def Let_def ord_char_of)

lemma lower_char_allowed:
  "lower_char x \<in> allowed_chars \<Longrightarrow> lower_char x \<in> lower_allowed_chars"
  unfolding allowed_chars_ord lower_allowed_chars_ord ord_lower_char
  by (auto split: if_splits)

lemma fixed_lower_allowed:
  assumes "c \<in> lower_allowed_chars"
  shows "c \<noteq> CHR '' ''" "lower_char c = c" "c \<in> allowed_chars"
proof -
  from assms have o: "(97 \<le> ord c \<and> ord c \<le> 122) \<or>
      (48 \<le> ord c \<and> ord c \<le> 57) \<or> ord c = 45 \<or> ord c = 95 \<or> ord c = 46"
    by (simp only: lower_allowed_chars_ord)
  then have "ord c \<noteq> 32" by auto
  then show "c \<noteq> CHR '' ''" by (auto simp: ord_def)
  from o show "lower_char c = c" by (auto simp: lower_char_def Let_def)
  from o show "c \<in> allowed_chars" unfolding allowed_chars_ord by auto
qed

lemma sanitize_path_chars: "set (sanitize_path s) \<subseteq> lower_allowed_chars"
  by (auto simp: sanitize_path_filter lower_char_allowed)

lemma sanitize_path_fixed: "set s \<subseteq> lower_allowed_chars \<Longrightarrow> sanitize_path s = s"
  unfolding sanitize_path_filter
  by (induction s) (simp_all add: fixed_lower_allowed)

lemma sanitize_path_example: "sanitize_path ''My Post! #1'' = ''my_post_1''"
  unfolding sanitize_path_filter
  by (simp add: allowed_chars_ord lower_char_def Let_def char_of_eq ord_char_of ord_def)

text \<open>
  C5, as the spec states it, fails at its own example: both blanks of \<open>My Post! #1\<close> become
  underscores and only \<open>!\<close> and \<open>#\<close> are removed, so the result is \<open>my_post_1\<close>, not
  \<open>my_post1\<close>.
\<close>

theorem C5_example_counterexample:
  "sanitize_path ''My Post! #1'' = ''my_post_1'' \<and> sanitize_path ''My Post! #1'' \<noteq> ''my_post1''"
  by (simp add: sanitize_path_example)

text \<open>
  C5, amended. For every string, \<open>sanitize_path\<close> (in exporter.py and in provider.py alike)
  replaces each space with an underscore, lowercases the result, and removes every
  character outside \<open>[a-zA-Z0-9-_.]\<close>; in particular \<open>sanitize_path("My Post! #1")\<close> is
  \<open>my_post_1\<close>.
\<close>

theorem C5_sanitize_path:
  "sanitize_path s = filter (\<lambda>c. c \<in> allowed_chars)
     (map lower_char (map (\<lambda>c. if c = CHR '' '' then CHR ''_'' else c) s)) \<and>
   NotionProvider_sanitize_path s = sanitize_path s \<and>
   sanitize_path ''My Post! #1'' = ''my_post_1''"
  by (simp only: sanitize_path_filter [symmetric] provider_sanitize_path sanitize_path_example)

theorem C5_sanitize_path_witness:
  "sanitize_path ''A b/C.md'' = ''a_bc.md'' \<and> NotionProvider_sanitize_path ''A b/C.md'' = ''a_bc.md''"
proof -
  have "filter (\<lambda>c. c \<in> allowed_chars)
     (map lower_char (map (\<lambda>c. if c = CHR '' '' then CHR ''_'' else c) ''A b/C.md'')) = ''a_bc.md''"
    by (simp add: allowed_chars_ord lower_char_def Let_def char_of_eq ord_char_of ord_def)
  with C5_sanitize_path [of "''A b/C.md''"] show ?thesis by simp
qed

text \<open>
  C9. \<open>sanitize_path\<close> is idempotent: its output has no space and no capital letter, only
  characters of \<open>[a-z0-9-_.]\<close>, and it leaves every such string as it is.
\<close>

theorem C9_sanitize_path_idempotent:
  "sanitize_path (sanitize_path s) = sanitize_path s \<and>
   set (sanitize_path s) \<subseteq> lower_allowed_chars \<and>
   CHR '' '' \<notin> set (sanitize_path s) \<and>
   set (sanitize_path s) \<inter> set ''ABCDEFGHIJKLMNOPQRSTUVWXYZ'' = {}"
proof -
  have "CHR '' '' \<notin> lower_allowed_chars"
    using fixed_lower_allowed(1) by blast
  moreover have "lower_allowed_chars \<inter> set ''ABCDEFGHIJKLMNOPQRSTUVWXYZ'' = {}"
    by (simp add: lower_allowed_chars_def)
  ultimately show ?thesis
    using sanitize_path_chars [of s] sanitize_path_fixed [of "sanitize_path s"] by blast
qed

theorem C9_sanitize_path_idempotent_witness:
  "sanitize_path (sanitize_path ''My Post! #1'') = ''my_post_1''"
  using C9_sanitize_path_idempotent [of "''My Post! #1''"]
  by (simp add: sanitize_path_example)

section \<open>Image captions\<close>

lemma split_maxsplit1_first:
  "c \<notin> set pre \<Longrightarrow> split_maxsplit1 c (pre @ c # post) = [pre, post]"
  by (induction pre) auto

lemma parse_caption_backslash:
  "backslash \<notin> set pre \<Longrightarrow>
   parse_caption (pre @ backslash # post) = (strip pre, strip post)"
  by (simp add: parse_caption_def split_maxsplit1_first)

lemma parse_caption_plain: "backslash \<notin> set s \<Longrightarrow> parse_caption s = (s, [])"
  by (simp add: parse_caption_def)

lemma parse_caption_example:
  "parse_caption (''Caption text'' @ backslash # ''Alt text'') = (''Caption text'', ''Alt text'')"
  by (simp add: parse_caption_def backslash_def strip_def isspace_def ord_def)

text \<open>
  C4. The claim holds for a caption with a backslash (\<open>parse_caption_backslash\<close>, and the
  example). For a caption without one the claim asks for the whole input trimmed, and so
  does the documentation of the method (it strips both parts) and its branch for a
  backslash; the other branch returns the input as it is. At the caption \<open> photo \<close>,
  with a blank on each side, the code returns it untrimmed, where the claim gives
  \<open>photo\<close>; with a backslash at its end the same caption is trimmed.
\<close>

theorem C4_untrimmed_without_backslash:
  "parse_caption '' photo '' = ('' photo '', []) \<and>
   spec_parse_caption '' photo '' = (''photo'', []) \<and>
   parse_caption ('' photo '' @ [backslash]) = (''photo'', []) \<and>
   parse_caption (''Caption text'' @ backslash # ''Alt text'') = (''Caption text'', ''Alt text'')"
  by (simp add: parse_caption_def spec_parse_caption_def backslash_def strip_def
      isspace_def ord_def)

section \<open>The dispatch of process\<close>

lemma getattr_renderer_names:
  "getattr_MarkdownStyler (BlobType_value t) = None \<Longrightarrow> \<exists>v. t = OTHER v"
  by (cases t) (simp_all add: getattr_MarkdownStyler_def)






section \<open>Image paths\<close>


lemma split_first: "c \<notin> set a \<Longrightarrow> split c (a @ c # rest) = a # split c rest"
  by (induction a) (auto split: list.splits)

lemma split_none: "c \<notin> set a \<Longrightarrow> split c a = [a]"
  by (induction a) (auto split: list.splits)









section \<open>Tables\<close>

lemma process_table_row:
  assumes "type r = TABLE_ROW" "table_cells r = Some cells" "cells \<noteq> []"
  shows "process inherited exists (Some r) indent =
    Inr (''\<newline>| '' @ join '' | '' (map style_content_with_annotation cells) @ '' |'')"
  using assms by (simp add: hasattr_MarkdownStyler_def getattr_MarkdownStyler_def table_row_def)

lemma collect_all_Inr: "collect (map Inr rs) = Inr rs"
  by (induction rs) simp_all

lemma rendered_rows:
  assumes "\<forall>r\<in>set rows. type r = TABLE_ROW \<and> (\<exists>cells. table_cells r = Some cells \<and> cells \<noteq> [])"
  shows "\<exists>rs. map (\<lambda>r. process inherited exists (Some r) indent) rows = map Inr rs \<and>
              length rs = length rows \<and> (\<forall>s\<in>set rs. take 3 s = ''\<newline>| '')"
  using assms
proof (induction rows)
  case Nil
  show ?case by simp
next
  case (Cons r rows)
  then obtain rs where rs: "map (\<lambda>r. process inherited exists (Some r) indent) rows = map Inr rs"
    "length rs = length rows" "\<forall>s\<in>set rs. take 3 s = ''\<newline>| ''"
    by auto
  from Cons.prems obtain cells where c: "type r = TABLE_ROW" "table_cells r = Some cells" "cells \<noteq> []"
    by auto
  let ?s = "''\<newline>| '' @ join '' | '' (map style_content_with_annotation cells) @ '' |''"
  have "map (\<lambda>r. process inherited exists (Some r) indent) (r # rows) = map Inr (?s # rs)"
    using rs(1) process_table_row [OF c] by simp
  moreover have "length (?s # rs) = length (r # rows)" using rs(2) by simp
  moreover have "\<forall>s\<in>set (?s # rs). take 3 s = ''\<newline>| ''" using rs(3) by simp
  ultimately show ?case by blast
qed

lemma separator_row_take: "take 3 (separator_row W) \<noteq> ''\<newline>| ''"
  by (cases W) (simp_all add: separator_row_def)

lemma count_list_insert:
  "x \<notin> set xs \<Longrightarrow> count_list (list_insert i x xs) x = 1"
proof -
  assume x: "x \<notin> set xs"
  then have "x \<notin> set (take i xs)" "x \<notin> set (drop i xs)"
    by (auto dest: in_set_takeD in_set_dropD)
  then show ?thesis
    by (simp add: list_insert_def count_list_0_iff)
qed

lemma list_insert_1: "xs \<noteq> [] \<Longrightarrow> list_insert 1 x xs = hd xs # x # tl xs"
  by (cases xs) (simp_all add: list_insert_def)

lemma table_rows:
  assumes w: "table_width blob = Some W" "0 < W"
    and ch: "children blob = Some rows" "rows \<noteq> []"
    and rows: "\<forall>r\<in>set rows. type r = TABLE_ROW \<and>
                 (\<exists>cells. table_cells r = Some cells \<and> cells \<noteq> [])"
  shows "\<exists>rs. map (\<lambda>r. process inherited exists (Some r) indent) rows = map Inr rs \<and>
     render inherited exists R_table blob indent =
       Inr (table_open @ concat (hd rs # separator_row (nat W) # tl rs) @ table_close) \<and>
     count_list (hd rs # separator_row (nat W) # tl rs) (separator_row (nat W)) = 1"
proof -
  from rendered_rows [OF rows] obtain rs where
    rs: "map (\<lambda>r. process inherited exists (Some r) indent) rows = map Inr rs"
      "length rs = length rows" "\<forall>s\<in>set rs. take 3 s = ''\<newline>| ''"
    by blast
  from rs(2) ch(2) have ne: "rs \<noteq> []" by auto
  from rs(3) separator_row_take have notin: "separator_row (nat W) \<notin> set rs" by blast
  have cl: "children_list blob = rows" using ch(1) by (simp add: children_list_def)
  have col: "collect (map (\<lambda>child_blob. process inherited exists (Some child_blob) indent)
                 (children_list blob)) = Inr rs"
    by (simp only: cl rs(1) collect_all_Inr)
  have "render inherited exists R_table blob indent =
       Inr (table_open @ concat (list_insert 1 (separator_row (nat W)) rs) @ table_close)"
    using w ne
    by (simp del: process.simps add: col table_open_def table_close_def separator_row_def
        join_empty_sep Suc_le_eq)
  moreover have "count_list (list_insert 1 (separator_row (nat W)) rs) (separator_row (nat W)) = 1"
    using notin by (rule count_list_insert)
  ultimately show ?thesis using rs(1) list_insert_1 [OF ne] by auto
qed

lemma split_lines6:
  assumes "c \<notin> set l0" "c \<notin> set l1" "c \<notin> set l2" "c \<notin> set l3" "c \<notin> set l4" "c \<notin> set l5"
  shows "split c (l0 @ c # l1 @ c # l2 @ c # l3 @ c # l4 @ c # l5) = [l0, l1, l2, l3, l4, l5]"
  using assms by (simp add: split_first split_none)

lemma count_pipe_row3:
  assumes "CHR ''|'' \<notin> set a" "CHR ''|'' \<notin> set b" "CHR ''|'' \<notin> set c"
  shows "count_list (''| '' @ a @ '' | '' @ b @ '' | '' @ c @ '' |'') CHR ''|'' = 4"
  using assms by (simp add: count_list_0_iff)

lemma pipe_counts_2x3:
  assumes p: "CHR ''|'' \<notin> set a1" "CHR ''|'' \<notin> set a2" "CHR ''|'' \<notin> set a3"
             "CHR ''|'' \<notin> set b1" "CHR ''|'' \<notin> set b2" "CHR ''|'' \<notin> set b3"
    and n: "newline \<notin> set a1" "newline \<notin> set a2" "newline \<notin> set a3"
           "newline \<notin> set b1" "newline \<notin> set b2" "newline \<notin> set b3"
  shows "pipe_counts (table_open @
           concat [''\<newline>| '' @ join '' | '' [a1, a2, a3] @ '' |'', separator_row 3,
                   ''\<newline>| '' @ join '' | '' [b1, b2, b3] @ '' |''] @ table_close) = [4, 4, 4]"
proof -
  let ?l1 = "''{{< bootstrap-table table_class=''
     @ quoted ''table table-striped table-bordered table-nonfluid w-auto'' @ '' >}}''"
  let ?l2 = "''| '' @ a1 @ '' | '' @ a2 @ '' | '' @ a3 @ '' |''"
  let ?l3 = "''|---|---|---|''"
  let ?l4 = "''| '' @ b1 @ '' | '' @ b2 @ '' | '' @ b3 @ '' |''"
  let ?l5 = "''{{< /bootstrap-table >}}''"
  have eq: "table_open @
           concat [''\<newline>| '' @ join '' | '' [a1, a2, a3] @ '' |'', separator_row 3,
                   ''\<newline>| '' @ join '' | '' [b1, b2, b3] @ '' |''] @ table_close
        = [] @ newline # ?l1 @ newline # ?l2 @ newline # ?l3 @ newline # ?l4 @ newline # ?l5"
    by (simp add: table_open_def table_close_def separator_row_def newline_def
        numeral_3_eq_3)
  have sp: "split newline ([] @ newline # ?l1 @ newline # ?l2 @ newline # ?l3 @ newline # ?l4 @ newline # ?l5)
        = [[], ?l1, ?l2, ?l3, ?l4, ?l5]"
    by (rule split_lines6) (use n in \<open>simp_all add: newline_def quoted_def dquote_def\<close>)
  show ?thesis
    unfolding pipe_counts_def eq sp
    using count_pipe_row3 [OF p(1-3)] count_pipe_row3 [OF p(4-6)]
    by (simp add: quoted_def dquote_def)
qed

text \<open>
  C2, as the spec states it, fails for a table of 2 rows of 3 cells with a \<open>|\<close> in a cell:
  nothing escapes it, and the header line then has five.
\<close>

theorem C2_pipe_in_cell_counterexample:
  "map_sum id pipe_counts
     (render object_attribute (\<lambda>f. False) R_table
        (table_of 3 [row_of [''a|b'', ''c'', ''d''], row_of [''e'', ''f'', ''g'']]) 0)
   = Inr [5, 4, 4]"
  by (simp add: table_of_def row_of_def children_list_def hasattr_MarkdownStyler_def
      getattr_MarkdownStyler_def table_row_def style_content_with_annotation_def style_text_def plain_def
      list_insert_def pipe_counts_def newline_def quoted_def dquote_def numeral_3_eq_3)

text \<open>
  C2, amended. For every table node with \<open>table_width = W \<ge> 1\<close> and \<open>N \<ge> 1\<close> children that
  are table rows of at least one cell each, every row renders, and the table is the
  opening tag, the rendered rows with one separator row of \<open>W\<close> cells of \<open>---\<close> inserted
  right after the first, and the closing tag; the separator is the only entry of that
  list equal to it. For a table of width 3 with 2 rows of 3 cells whose styled cell texts
  have no \<open>|\<close> and no line break, the rendered markdown has exactly 3 pipe-delimited lines
  (header, separator, body), each with exactly 4 \<open>|\<close>.
\<close>

theorem C2_table_separator:
  "(table_width blob = Some W \<and> 0 < W \<and> children blob = Some rows \<and> rows \<noteq> [] \<and>
    (\<forall>r\<in>set rows. type r = TABLE_ROW \<and> (\<exists>cells. table_cells r = Some cells \<and> cells \<noteq> []))
    \<longrightarrow>
    (\<exists>rs. map (\<lambda>r. process inherited exists (Some r) indent) rows = map Inr rs \<and>
       render inherited exists R_table blob indent =
         Inr (table_open @ concat (hd rs # separator_row (nat W) # tl rs) @ table_close) \<and>
       count_list (hd rs # separator_row (nat W) # tl rs) (separator_row (nat W)) = 1)) \<and>
   (table_width blob = Some 3 \<and> children blob = Some [r1, r2] \<and>
    type r1 = TABLE_ROW \<and> table_cells r1 = Some [a1, a2, a3] \<and>
    type r2 = TABLE_ROW \<and> table_cells r2 = Some [b1, b2, b3] \<and>
    (\<forall>c\<in>set [a1, a2, a3, b1, b2, b3].
       CHR ''|'' \<notin> set (style_content_with_annotation c) \<and>
       newline \<notin> set (style_content_with_annotation c))
    \<longrightarrow>
    map_sum id pipe_counts (render inherited exists R_table blob indent) = Inr [4, 4, 4])"
proof (intro conjI impI)
  assume "table_width blob = Some W \<and> 0 < W \<and> children blob = Some rows \<and> rows \<noteq> [] \<and>
    (\<forall>r\<in>set rows. type r = TABLE_ROW \<and> (\<exists>cells. table_cells r = Some cells \<and> cells \<noteq> []))"
  then show "\<exists>rs. map (\<lambda>r. process inherited exists (Some r) indent) rows = map Inr rs \<and>
       render inherited exists R_table blob indent =
         Inr (table_open @ concat (hd rs # separator_row (nat W) # tl rs) @ table_close) \<and>
       count_list (hd rs # separator_row (nat W) # tl rs) (separator_row (nat W)) = 1"
    using table_rows [of blob W rows inherited exists indent] by blast
next
  assume h: "table_width blob = Some 3 \<and> children blob = Some [r1, r2] \<and>
    type r1 = TABLE_ROW \<and> table_cells r1 = Some [a1, a2, a3] \<and>
    type r2 = TABLE_ROW \<and> table_cells r2 = Some [b1, b2, b3] \<and>
    (\<forall>c\<in>set [a1, a2, a3, b1, b2, b3].
       CHR ''|'' \<notin> set (style_content_with_annotation c) \<and>
       newline \<notin> set (style_content_with_annotation c))"
  let ?st = style_content_with_annotation
  let ?s1 = "''\<newline>| '' @ join '' | '' [?st a1, ?st a2, ?st a3] @ '' |''"
  let ?s2 = "''\<newline>| '' @ join '' | '' [?st b1, ?st b2, ?st b3] @ '' |''"
  from h have p1: "process inherited exists (Some r1) indent = Inr ?s1"
    using process_table_row [of r1 "[a1, a2, a3]" inherited exists indent] by simp
  from h have p2: "process inherited exists (Some r2) indent = Inr ?s2"
    using process_table_row [of r2 "[b1, b2, b3]" inherited exists indent] by simp
  from h have "\<exists>rs. map (\<lambda>r. process inherited exists (Some r) indent) [r1, r2] = map Inr rs \<and>
       render inherited exists R_table blob indent =
         Inr (table_open @ concat (hd rs # separator_row (nat 3) # tl rs) @ table_close) \<and>
       count_list (hd rs # separator_row (nat 3) # tl rs) (separator_row (nat 3)) = 1"
    using table_rows [of blob 3 "[r1, r2]" inherited exists indent] by auto
  then obtain rs where rs: "map (\<lambda>r. process inherited exists (Some r) indent) [r1, r2] = map Inr rs"
    and out: "render inherited exists R_table blob indent =
         Inr (table_open @ concat (hd rs # separator_row (nat 3) # tl rs) @ table_close)"
    by blast
  have "map Inr rs = (map Inr [?s1, ?s2] :: (py_error + string) list)"
    unfolding rs [symmetric] by (simp only: list.map p1 p2)
  then have "rs = [?s1, ?s2]" by (rule map_injective) simp
  with out have "render inherited exists R_table blob indent =
      Inr (table_open @ concat [?s1, separator_row 3, ?s2] @ table_close)"
    by (simp del: render.simps)
  moreover from h have "pipe_counts (table_open @ concat [?s1, separator_row 3, ?s2] @ table_close)
      = [4, 4, 4]"
    by (intro pipe_counts_2x3) simp_all
  ultimately show "map_sum id pipe_counts (render inherited exists R_table blob indent) = Inr [4, 4, 4]"
    by (simp del: render.simps)
qed

theorem C2_table_separator_witness:
  "(\<exists>rs. map (\<lambda>r. process object_attribute (\<lambda>f. False) (Some r) 0)
             [row_of [''a'', ''b'', ''c''], row_of [''d'', ''e'', ''f'']] = map Inr rs \<and>
       render object_attribute (\<lambda>f. False) R_table
          (table_of 3 [row_of [''a'', ''b'', ''c''], row_of [''d'', ''e'', ''f'']]) 0 =
         Inr (table_open @ concat (hd rs # separator_row 3 # tl rs) @ table_close) \<and>
       count_list (hd rs # separator_row 3 # tl rs) (separator_row 3) = 1) \<and>
   map_sum id pipe_counts
     (render object_attribute (\<lambda>f. False) R_table
        (table_of 3 [row_of [''a'', ''b'', ''c''], row_of [''d'', ''e'', ''f'']]) 0)
   = Inr [4, 4, 4]"
proof -
  let ?t = "table_of 3 [row_of [''a'', ''b'', ''c''], row_of [''d'', ''e'', ''f'']]"
  have st: "\<And>c. style_content_with_annotation [plain [c]] = [c]"
    by (simp add: style_content_with_annotation_def style_text_def plain_def)
  have 1: "table_width ?t = Some 3 \<and> (0::int) < 3 \<and>
      children ?t = Some [row_of [''a'', ''b'', ''c''], row_of [''d'', ''e'', ''f'']] \<and>
      [row_of [''a'', ''b'', ''c''], row_of [''d'', ''e'', ''f'']] \<noteq> [] \<and>
      (\<forall>r\<in>set [row_of [''a'', ''b'', ''c''], row_of [''d'', ''e'', ''f'']].
         type r = TABLE_ROW \<and> (\<exists>cells. table_cells r = Some cells \<and> cells \<noteq> []))"
    by (simp add: table_of_def row_of_def)
  have 2: "table_width ?t = Some 3 \<and>
      children ?t = Some [row_of [''a'', ''b'', ''c''], row_of [''d'', ''e'', ''f'']] \<and>
      type (row_of [''a'', ''b'', ''c'']) = TABLE_ROW \<and>
      table_cells (row_of [''a'', ''b'', ''c'']) = Some [[plain ''a''], [plain ''b''], [plain ''c'']] \<and>
      type (row_of [''d'', ''e'', ''f'']) = TABLE_ROW \<and>
      table_cells (row_of [''d'', ''e'', ''f'']) = Some [[plain ''d''], [plain ''e''], [plain ''f'']] \<and>
      (\<forall>c\<in>set [[plain ''a''], [plain ''b''], [plain ''c''], [plain ''d''], [plain ''e''], [plain ''f'']].
         CHR ''|'' \<notin> set (style_content_with_annotation c) \<and>
         newline \<notin> set (style_content_with_annotation c))"
    by (simp add: table_of_def row_of_def st newline_def)
  from C2_table_separator [of ?t 3 "[row_of [''a'', ''b'', ''c''], row_of [''d'', ''e'', ''f'']]"
      object_attribute "\<lambda>f. False" 0 "row_of [''a'', ''b'', ''c'']" "row_of [''d'', ''e'', ''f'']"
      "[plain ''a'']" "[plain ''b'']" "[plain ''c'']" "[plain ''d'']" "[plain ''e'']" "[plain ''f'']"]
    1 2
  show ?thesis by (simp del: process.simps render.simps)
qed

section \<open>Property extraction\<close>

lemma map_of_dict_set: "map_of (dict_set d k v) k' = (if k' = k then Some v else map_of d k')"
  by (induction d) auto

lemma dict_keys_simps:
  "dict_keys [] = {}" "dict_keys ((k, v) # d) = insert k (dict_keys d)"
  by (simp_all add: dict_keys_def)

lemma keys_dict_set: "dict_keys (dict_set d k v) = insert k (dict_keys d)"
  unfolding dict_keys_def dom_map_of_conv_image_fst [symmetric]
  by (auto simp: map_of_dict_set dom_def)

lemma store_entry_keys:
  assumes "store_entry fmt k c (prop, val) = Inr (prop', val')"
  shows "dict_keys prop' = insert k (dict_keys prop)"
proof (cases "\<not> truthy c \<or> is_str_int_bool c")
  case True
  with assms show ?thesis by (auto simp: store_entry_def keys_dict_set)
next
  case False
  show ?thesis
  proof (cases c)
    case (PList ts)
    with assms False show ?thesis
      by (auto simp: store_entry_def keys_dict_set split: sum.splits)
  next
    case (PDict cd)
    with assms False show ?thesis
      by (auto simp: store_entry_def keys_dict_set split: sum.splits option.splits)
  qed (use assms False in \<open>simp_all add: store_entry_def\<close>)
qed

lemma property_step_keys:
  assumes "property_step fmt k v (prop, val) = Inr (prop', val')"
  shows "dict_keys prop' \<subseteq> insert k (insert ''Title'' (dict_keys prop))"
proof (cases "subscript v ''type''")
  case (Inl e)
  with assms show ?thesis by (simp add: property_step_def)
next
  case (Inr ty)
  show ?thesis
  proof (cases ty)
    case (PStr t)
    show ?thesis
    proof (cases "is_substring t ''relation''")
      case True
      with assms Inr PStr show ?thesis by (auto simp: property_step_def)
    next
      case nr: False
      show ?thesis
      proof (cases "t = ''title''")
        case True
        with assms Inr PStr nr show ?thesis
          by (auto simp: property_step_def keys_dict_set split: sum.splits)
      next
        case False
        with assms Inr PStr nr obtain c where "store_entry fmt k c (prop, val) = Inr (prop', val')"
          by (auto simp: property_step_def split: sum.splits)
        from store_entry_keys [OF this] show ?thesis by auto
      qed
    qed
  qed (use assms Inr in \<open>simp_all add: property_step_def\<close>)
qed

lemma properties_loop_keys:
  "properties_loop fmt items st = Inr st' \<Longrightarrow>
   dict_keys (fst st') \<subseteq> dict_keys (fst st) \<union> dict_keys items \<union> {''Title''}"
proof (induction items arbitrary: st)
  case Nil
  then show ?case by auto
next
  case (Cons kv items)
  obtain k v where kv: "kv = (k, v)" by (cases kv)
  obtain pr va where st: "st = (pr, va)" by (cases st)
  from Cons.prems kv obtain st1 where
    s1: "property_step fmt k v st = Inr st1" and l: "properties_loop fmt items st1 = Inr st'"
    by (auto split: sum.splits)
  obtain prop1 value1 where st1: "st1 = (prop1, value1)" by (cases st1)
  from property_step_keys [of fmt k v pr va prop1 value1] s1 st st1
  have "dict_keys prop1 \<subseteq> insert k (insert ''Title'' (dict_keys pr))" by simp
  moreover from Cons.IH [OF l] st1
  have "dict_keys (fst st') \<subseteq> dict_keys prop1 \<union> dict_keys items \<union> {''Title''}" by simp
  ultimately show ?case using kv st by (auto simp: dict_keys_simps)
qed

lemma summary_step_keys:
  "summary_step fmt metadata prop = Inr prop' \<Longrightarrow>
   dict_keys prop' \<subseteq> insert ''Summary'' (dict_keys prop)"
  by (auto simp: summary_step_def keys_dict_set
      split: option.splits sum.splits pyval.splits list.splits if_splits)

lemma parse_properties_keys:
  assumes "parse_properties fmt metadata = Inr prop"
  shows "dict_keys prop \<subseteq> dict_keys metadata \<union> {''Title'', ''Summary'', ''lesedauer''}"
    and "map_of prop ''lesedauer'' = Some (PStr ''ReadingTime'')"
proof -
  from assms obtain p1 v1 p2 where
    l: "properties_loop fmt metadata ([], None) = Inr (p1, v1)"
    and s: "summary_step fmt metadata p1 = Inr p2"
    and p: "prop = dict_set p2 ''lesedauer'' (PStr ''ReadingTime'')"
    by (auto simp: parse_properties_def split: sum.splits prod.splits)
  from properties_loop_keys [OF l] have "dict_keys p1 \<subseteq> dict_keys metadata \<union> {''Title''}"
    by (simp add: dict_keys_simps)
  with summary_step_keys [OF s] p
  show "dict_keys prop \<subseteq> dict_keys metadata \<union> {''Title'', ''Summary'', ''lesedauer''}"
    by (auto simp: keys_dict_set)
  from p show "map_of prop ''lesedauer'' = Some (PStr ''ReadingTime'')"
    by (simp add: map_of_dict_set)
qed

lemma sorted_data_keys: "dict_keys (sorted_data properties) \<subseteq> set key_order"
  by (auto simp: sorted_data_def dict_keys_def split: option.splits)

text \<open>
  C6 at two raw mappings with a unique-id entry that has no prefix, a dict that fits none
  of the four shapes. After a select entry, the entry gets the value of the select
  entry and parsing succeeds; alone, parsing raises \<open>UnboundLocalError\<close>. Neither raises
  the unhandled-property-type error (\<open>NotImplementedError\<close>).
\<close>

theorem C6_unhandled_dict_shape:
  "parse_properties fmt
     [(''Status'', PDict [(''type'', PStr ''select''),
                          (''select'', PDict [(''name'', PStr ''Done'')])]),
      (''ID'', PDict [(''type'', PStr ''unique_id''),
                      (''unique_id'', PDict [(''prefix'', PNone), (''number'', PInt 7)])])]
   = Inr [(''Status'', PStr ''Done''), (''ID'', PStr ''Done''),
          (''lesedauer'', PStr ''ReadingTime'')] \<and>
   parse_properties fmt
     [(''ID'', PDict [(''type'', PStr ''unique_id''),
                      (''unique_id'', PDict [(''prefix'', PNone), (''number'', PInt 7)])])]
   = Inl UnboundLocalError"
  by (simp add: parse_properties_def property_step_def store_entry_def resolve_dict_def
      get_or_None_def summary_step_def)

text \<open>
  C10, as the spec states it, fails for a raw mapping that has a property named
  \<open>Lesedauer\<close> itself: the extraction passes the key on.
\<close>

theorem C10_capitalized_key_counterexample:
  "parse_properties format_scalar
     [(''Lesedauer'', PDict [(''type'', PStr ''number''), (''number'', PInt 5)])]
   = Inr [(''Lesedauer'', PInt 5), (''lesedauer'', PStr ''ReadingTime'')]"
  by (simp add: parse_properties_def property_step_def store_entry_def summary_step_def)

text \<open>
  C10, amended. For every raw property mapping on which \<open>parse_properties\<close> succeeds, the
  returned mapping has the lowercase key \<open>lesedauer\<close> bound to the string \<open>ReadingTime\<close>;
  the capitalized key \<open>Lesedauer\<close> is in it only when the raw mapping itself has a
  property of that name; and the formatter, whose key order names \<open>Lesedauer\<close>, does not
  keep the key \<open>lesedauer\<close>.
\<close>

theorem C10_lesedauer_key:
  "parse_properties fmt metadata = Inr result \<longrightarrow>
     map_of result ''lesedauer'' = Some (PStr ''ReadingTime'') \<and>
     (''Lesedauer'' \<in> dict_keys result \<longrightarrow> ''Lesedauer'' \<in> dict_keys metadata) \<and>
     ''lesedauer'' \<notin> dict_keys (sorted_data result)"
proof
  assume ok: "parse_properties fmt metadata = Inr result"
  have "''lesedauer'' \<notin> set key_order" by (simp add: key_order_def)
  with sorted_data_keys [of result] have "''lesedauer'' \<notin> dict_keys (sorted_data result)" by blast
  moreover have "''Lesedauer'' \<in> dict_keys result \<longrightarrow> ''Lesedauer'' \<in> dict_keys metadata"
    using parse_properties_keys(1) [OF ok] by auto
  ultimately show "map_of result ''lesedauer'' = Some (PStr ''ReadingTime'') \<and>
     (''Lesedauer'' \<in> dict_keys result \<longrightarrow> ''Lesedauer'' \<in> dict_keys metadata) \<and>
     ''lesedauer'' \<notin> dict_keys (sorted_data result)"
    using parse_properties_keys(2) [OF ok] by simp
qed

theorem C10_lesedauer_key_witness:
  "parse_properties format_scalar
     [(''ID'', PDict [(''type'', PStr ''unique_id''),
                      (''unique_id'', PDict [(''prefix'', PStr ''TASK''), (''number'', PInt 7)])]),
      (''Name'', PDict [(''type'', PStr ''title''),
                        (''title'', PList [PDict [(''plain_text'', PStr ''Hello'')]])])]
   = Inr [(''ID'', PStr ''TASK_7''), (''Title'', PStr ([squote] @ ''Hello'' @ [squote])),
          (''lesedauer'', PStr ''ReadingTime'')] \<and>
   map_of [(''ID'', PStr ''TASK_7''), (''Title'', PStr ([squote] @ ''Hello'' @ [squote])),
           (''lesedauer'', PStr ''ReadingTime'')] ''lesedauer'' = Some (PStr ''ReadingTime'') \<and>
   ''Lesedauer'' \<notin> dict_keys [(''ID'', PStr ''TASK_7''),
       (''Title'', PStr ([squote] @ ''Hello'' @ [squote])), (''lesedauer'', PStr ''ReadingTime'')]"
proof -
  have d: "digits 7 = ''7''" by (simp add: digits.simps char_of_eq ord_def)
  have e: "parse_properties format_scalar
     [(''ID'', PDict [(''type'', PStr ''unique_id''),
                      (''unique_id'', PDict [(''prefix'', PStr ''TASK''), (''number'', PInt 7)])]),
      (''Name'', PDict [(''type'', PStr ''title''),
                        (''title'', PList [PDict [(''plain_text'', PStr ''Hello'')]])])]
   = Inr [(''ID'', PStr ''TASK_7''), (''Title'', PStr ([squote] @ ''Hello'' @ [squote])),
          (''lesedauer'', PStr ''ReadingTime'')]"
    by (simp add: parse_properties_def property_step_def store_entry_def title_entry_def
        resolve_dict_def get_or_None_def summary_step_def title_value_def d)
  from C10_lesedauer_key [of format_scalar
      "[(''ID'', PDict [(''type'', PStr ''unique_id''),
                      (''unique_id'', PDict [(''prefix'', PStr ''TASK''), (''number'', PInt 7)])]),
      (''Name'', PDict [(''type'', PStr ''title''),
                        (''title'', PList [PDict [(''plain_text'', PStr ''Hello'')]])])]"
      "[(''ID'', PStr ''TASK_7''), (''Title'', PStr ([squote] @ ''Hello'' @ [squote])),
          (''lesedauer'', PStr ''ReadingTime'')]"] e
  show ?thesis by (simp add: dict_keys_def)
qed

end
